theory Spec2Isabelle
  imports Complex_Main "HOL-Library.Monad_Syntax"
begin

section \<open>Annotated tokens and documents\<close>

text \<open>
  A spaCy \<^verbatim>\<open>Doc\<close> is modelled as the list of its tokens; a token is referred to by its
  position in that list, and \<^verbatim>\<open>token.head\<close> is the position of the syntactic head (the
  root of a sentence is its own head).  Strings are byte strings (UTF-8), so
  \<^verbatim>\<open>'PER:m\xc3\xa4nnlich'\<close> is written with the two bytes of the umlaut.  The custom
  extension \<^verbatim>\<open>token._.gender\<close> has default \<^verbatim>\<open>None\<close>.
\<close>

record token =
  tok_text :: string
  tok_lemma :: string
  tok_pos :: string
  tok_dep :: string
  tok_head :: nat
  tok_case :: "string list"
  tok_ent_type :: string
  tok_gender :: "string option"

type_synonym doc = "token list"

text \<open>\<^verbatim>\<open>token.children\<close>: the tokens whose head is the token, in document order.\<close>

definition children :: "doc \<Rightarrow> nat \<Rightarrow> nat list" where
  "children doc i = filter (\<lambda>j. j \<noteq> i \<and> tok_head (doc ! j) = i) [0..<length doc]"

text \<open>
  Truth value of an optional token: \<^verbatim>\<open>None\<close> is false, and a token is false exactly when
  its text is empty (\<^verbatim>\<open>Token.__len__\<close> is the number of characters of the text).
\<close>

definition token_truthy :: "doc \<Rightarrow> nat option \<Rightarrow> bool" where
  "token_truthy doc t = (case t of None \<Rightarrow> False | Some i \<Rightarrow> tok_text (doc ! i) \<noteq> [])"

text \<open>Truth value of an optional string: \<^verbatim>\<open>None\<close> and the empty string are false.\<close>

definition truthy :: "string option \<Rightarrow> bool" where
  "truthy g = (g \<noteq> None \<and> g \<noteq> Some [])"

definition startswith :: "string \<Rightarrow> string \<Rightarrow> bool" where
  "startswith s p = (take (length p) s = p)"

text \<open>
  \<^verbatim>\<open>s[:-n]\<close> drops the last \<open>n\<close> characters of \<open>s\<close> (all of them when there are
  fewer).  In UTF-8 a character is one byte that is not a continuation byte (\<^verbatim>\<open>10xxxxxx\<close>)
  followed by its continuation bytes.
\<close>

definition continuation_byte :: "char \<Rightarrow> bool" where
  "continuation_byte c = (128 \<le> (of_char c :: nat) \<and> (of_char c :: nat) < 192)"

definition drop_last_char :: "string \<Rightarrow> string" where
  "drop_last_char s = rev (drop 1 (dropWhile continuation_byte (rev s)))"

definition without_last :: "nat \<Rightarrow> string \<Rightarrow> string" where
  "without_last n s = (drop_last_char ^^ n) s"

definition SVP_DELIMITER :: string where
  "SVP_DELIMITER = []"

definition PER_weiblich :: string where
  "PER_weiblich = ''PER:weiblich''"

definition PER_maennlich :: string where
  "PER_maennlich = ''PER:m'' @ [CHR 0xC3, CHR 0xA4] @ ''nnlich''"

definition TARGET_POS :: "string set" where
  "TARGET_POS = {''NOUN'', ''PROPN''}"

definition is_nom :: "token \<Rightarrow> bool" where
  "is_nom t = (''Nom'' \<in> set (tok_case t))"


section \<open>Gender occurrences of a target (descr\_pars.py, lines 15 to 84)\<close>

record occurrences =
  female_occurrences :: int
  male_occurrences :: int
  undetermined :: int

definition no_occurrences :: occurrences where
  "no_occurrences = \<lparr>female_occurrences = 0, male_occurrences = 0, undetermined = 0\<rparr>"

definition add_female :: "occurrences \<Rightarrow> occurrences" where
  "add_female v = v\<lparr>female_occurrences := female_occurrences v + 1\<rparr>"

definition add_male :: "occurrences \<Rightarrow> occurrences" where
  "add_male v = v\<lparr>male_occurrences := male_occurrences v + 1\<rparr>"

definition add_undetermined :: "occurrences \<Rightarrow> occurrences" where
  "add_undetermined v = v\<lparr>undetermined := undetermined v + 1\<rparr>"

text \<open>Lines 33 to 48: the gender of the starting target.\<close>

definition starting_target :: "token \<Rightarrow> occurrences" where
  "starting_target t =
     (if truthy (tok_gender t) then
        (if tok_gender t = Some ''PRN:F'' then add_female no_occurrences
         else if tok_gender t = Some ''PRN:M'' then add_male no_occurrences
         else no_occurrences)
      else if startswith (tok_ent_type t) ''PER:'' then
        (if tok_ent_type t = PER_weiblich then add_female no_occurrences
         else if tok_ent_type t = PER_maennlich then add_male no_occurrences
         else if tok_ent_type t = ''PER:NA'' \<or> tok_ent_type t = ''PER:AMB''
           then add_undetermined no_occurrences
         else no_occurrences)
      else no_occurrences)"

definition target_conjunct :: "token \<Rightarrow> bool" where
  "target_conjunct c = (tok_dep c = ''cj'' \<and> tok_pos c \<in> TARGET_POS \<and> is_nom c)"

definition conj_link :: "token \<Rightarrow> bool" where
  "conj_link c = (tok_dep c = ''cd'' \<and> tok_pos c = ''CCONJ'')"

text \<open>
  Lines 50 to 82: the \<^verbatim>\<open>while new_children\<close> loop.  One round looks for the first child
  that is a nominative NOUN/PROPN conjunct or a coordinating conjunction, moves to it, and
  goes on unless \<^verbatim>\<open>new_children\<close> was set back to \<^verbatim>\<open>False\<close>.  A walk that never
  ends has the value \<open>None\<close>.
\<close>

partial_function (option) conj_walk :: "doc \<Rightarrow> nat \<Rightarrow> occurrences \<Rightarrow> occurrences option" where
  "conj_walk doc tk v =
    (case find (\<lambda>c. target_conjunct (doc ! c) \<or> conj_link (doc ! c)) (children doc tk) of
       None \<Rightarrow> Some v
     | Some child \<Rightarrow>
        if target_conjunct (doc ! child) then
          (if truthy (tok_gender (doc ! child)) then
             (if tok_gender (doc ! child) = Some ''PRN:F'' then conj_walk doc child (add_female v)
              else if tok_gender (doc ! child) = Some ''PRN:M'' then conj_walk doc child (add_male v)
              else Some v)
           else if startswith (tok_ent_type (doc ! child)) ''PER:'' then
             (if tok_ent_type (doc ! child) = PER_weiblich then conj_walk doc child (add_female v)
              else if tok_ent_type (doc ! child) = PER_maennlich then conj_walk doc child (add_male v)
              else if tok_ent_type (doc ! child) = ''PER:NA'' \<or> tok_ent_type (doc ! child) = ''PER:AMB''
                then conj_walk doc child (add_undetermined v)
              else Some v)
           else conj_walk doc child v)
        else conj_walk doc child v)"

declare conj_walk.simps [code]

definition obtain_gender_occurrences :: "doc \<Rightarrow> nat option \<Rightarrow> occurrences option" where
  "obtain_gender_occurrences doc t =
     (case t of
        None \<Rightarrow> Some no_occurrences
      | Some i \<Rightarrow>
          if \<not> token_truthy doc (Some i) then Some no_occurrences
          else conj_walk doc i (starting_target (doc ! i)))"


section \<open>The statistics accumulator (helper.py, lines 15 to 64)\<close>

text \<open>
  A dictionary from words to counts is a map; \<^verbatim>\<open>d.get(k, 0)\<close> is \<open>dict_get d k\<close>.  The
  small tables of match counters are association lists, since they are walked in key order
  (\<^verbatim>\<open>zip(d.keys(), ...)\<close>); their keys never change.  The sentiment sums are lists of
  floats.
\<close>

definition dict_get :: "(string \<rightharpoonup> int) \<Rightarrow> string \<Rightarrow> int" where
  "dict_get d k = (case d k of None \<Rightarrow> 0 | Some v \<Rightarrow> v)"

text \<open>\<^verbatim>\<open>d[key] += x\<close> for a key of the table.\<close>

definition dict_add :: "(string \<times> int) list \<Rightarrow> string \<Rightarrow> int \<Rightarrow> (string \<times> int) list" where
  "dict_add d key x = map (\<lambda>(k, v). if k = key then (k, v + x) else (k, v)) d"

record PER =
  female_per :: "string \<rightharpoonup> int"
  male_per :: "string \<rightharpoonup> int"
  amb_per :: "string \<rightharpoonup> int"
  nh_per :: "string \<rightharpoonup> int"
  ud_per :: "string \<rightharpoonup> int"
  num_matches_per :: "(string \<times> int) list"

record PRN =
  female_prn :: "string \<rightharpoonup> int"
  male_prn :: "string \<rightharpoonup> int"
  num_matches_prn :: "(string \<times> int) list"

record DESCR =
  female_descriptors :: "string \<rightharpoonup> int"
  male_descriptors :: "string \<rightharpoonup> int"
  ud_descriptors :: "string \<rightharpoonup> int"
  num_matches_descr :: "(string \<times> int) list"
  num_neg :: int

text \<open>
  Python floats are values of a type \<open>'f\<close> that is left open, with the three things the
  program does with them: the literal \<^verbatim>\<open>0.0\<close>, the sum \<^verbatim>\<open>a + b\<close> of two floats, and
  the product \<^verbatim>\<open>k * b\<close> of an int and a float (the int is converted to a float first;
  the ints here are counts of tokens of one paragraph).  Nothing is assumed of them, so
  rounding, infinities and \<^verbatim>\<open>nan\<close> are whatever the operations make of them.
\<close>

record 'f float_ops =
  fl_zero :: 'f
  fl_add :: "'f \<Rightarrow> 'f \<Rightarrow> 'f"
  fl_mul :: "int \<Rightarrow> 'f \<Rightarrow> 'f"

record 'f GLEAN =
  female_glean :: "'f list"
  male_glean :: "'f list"
  ud_glean :: "'f list"
  glean_not_found :: "(string \<times> int) list"

record BYD_MW =
  match_lists :: "string \<rightharpoonup> (string \<rightharpoonup> int)"
  num_matches :: "(string \<times> int) list"

record 'f Statistics =
  per :: PER
  prn :: PRN
  descr :: DESCR
  glean :: "'f GLEAN"
  byd_mw :: BYD_MW
  token_num :: int
  num_slashes :: int

definition GLEAN_INIT :: "'f float_ops \<Rightarrow> 'f list" where
  "GLEAN_INIT fl = [fl_zero fl, fl_zero fl, fl_zero fl, fl_zero fl]"

text \<open>
  The constructors with their default fields.  The second key of \<^verbatim>\<open>num_matches_per\<close>
  is written in helper.py, line 38, with the bytes \<^verbatim>\<open>m\xc3\x83\xc2\xa4nnlich\<close>.
\<close>

definition new_PER ::
  "(string \<rightharpoonup> int) \<Rightarrow> (string \<rightharpoonup> int) \<Rightarrow> (string \<rightharpoonup> int) \<Rightarrow> (string \<rightharpoonup> int) \<Rightarrow> (string \<rightharpoonup> int) \<Rightarrow> PER" where
  "new_PER f m a n u =
     \<lparr>female_per = f, male_per = m, amb_per = a, nh_per = n, ud_per = u,
      num_matches_per =
        [(''PER:weiblich'', 0),
         (''PER:m'' @ [CHR 0xC3, CHR 0x83, CHR 0xC2, CHR 0xA4] @ ''nnlich'', 0),
         (''PER:NA'', 0), (''PER:AMB'', 0)]\<rparr>"

definition new_PRN :: "(string \<rightharpoonup> int) \<Rightarrow> (string \<rightharpoonup> int) \<Rightarrow> PRN" where
  "new_PRN f m = \<lparr>female_prn = f, male_prn = m, num_matches_prn = [(''PRN:F'', 0), (''PRN:M'', 0)]\<rparr>"

definition new_DESCR :: "(string \<rightharpoonup> int) \<Rightarrow> (string \<rightharpoonup> int) \<Rightarrow> (string \<rightharpoonup> int) \<Rightarrow> DESCR" where
  "new_DESCR f m u =
     \<lparr>female_descriptors = f, male_descriptors = m, ud_descriptors = u,
      num_matches_descr = [(''DESCR:F'', 0), (''DESCR:M'', 0), (''DESCR:NA'', 0)],
      num_neg = 0\<rparr>"

definition new_GLEAN :: "'f float_ops \<Rightarrow> 'f GLEAN" where
  "new_GLEAN fl =
     \<lparr>female_glean = GLEAN_INIT fl, male_glean = GLEAN_INIT fl, ud_glean = GLEAN_INIT fl,
      glean_not_found = [(''DESCR:F'', 0), (''DESCR:M'', 0), (''DESCR:NA'', 0)]\<rparr>"

definition new_BYD_MW :: "(string \<rightharpoonup> (string \<rightharpoonup> int)) \<Rightarrow> (string \<times> int) list \<Rightarrow> BYD_MW" where
  "new_BYD_MW ml nm = \<lparr>match_lists = ml, num_matches = nm\<rparr>"

definition new_Statistics :: "PER \<Rightarrow> PRN \<Rightarrow> DESCR \<Rightarrow> 'f GLEAN \<Rightarrow> BYD_MW \<Rightarrow> 'f Statistics" where
  "new_Statistics p n d g b =
     \<lparr>per = p, prn = n, descr = d, glean = g, byd_mw = b, token_num = 0, num_slashes = 0\<rparr>"


section \<open>Recording a descriptor (descr\_pars.py, lines 182 to 213)\<close>

text \<open>
  The sentiment lexicon \<^verbatim>\<open>glean_norm_values\<close> is read from a file when the module is
  loaded; it is a parameter here.  \<^verbatim>\<open>glean_norm_values[descriptor]\<close> raises
  \<^verbatim>\<open>KeyError\<close> for a missing word, in the first statement of the \<^verbatim>\<open>try\<close> block.
\<close>

type_synonym 'f lexicon = "string \<rightharpoonup> 'f list"

text \<open>\<^verbatim>\<open>for key, factor in zip(d.keys(), (f_factor, m_factor, ud_factor)): d[key] += factor\<close>\<close>

definition add_factors :: "(string \<times> int) list \<Rightarrow> occurrences \<Rightarrow> (string \<times> int) list" where
  "add_factors d factors =
     fold (\<lambda>(key, factor) d'. dict_add d' key factor)
       (zip (map fst d)
          [female_occurrences factors, male_occurrences factors, undetermined factors]) d"

text \<open>\<^verbatim>\<open>[a + factor*b for a,b in zip(acc, entry)]\<close>\<close>

definition scaled_sum :: "'f float_ops \<Rightarrow> 'f list \<Rightarrow> int \<Rightarrow> 'f list \<Rightarrow> 'f list" where
  "scaled_sum fl acc factor entry = map (\<lambda>(a, b). fl_add fl a (fl_mul fl factor b)) (zip acc entry)"

definition add_descriptor :: "'f float_ops \<Rightarrow> 'f lexicon \<Rightarrow> string \<Rightarrow> occurrences \<Rightarrow> 'f Statistics \<Rightarrow> 'f Statistics" where
  "add_descriptor fl glean_norm_values descriptor factors statistics =
     (let f_factor = female_occurrences factors;
          m_factor = male_occurrences factors;
          ud_factor = undetermined factors;
          d = descr statistics;
          d' = d\<lparr>female_descriptors :=
                   (female_descriptors d)(descriptor \<mapsto> dict_get (female_descriptors d) descriptor + f_factor),
                 male_descriptors :=
                   (male_descriptors d)(descriptor \<mapsto> dict_get (male_descriptors d) descriptor + m_factor),
                 ud_descriptors :=
                   (ud_descriptors d)(descriptor \<mapsto> dict_get (ud_descriptors d) descriptor + ud_factor),
                 num_matches_descr := add_factors (num_matches_descr d) factors\<rparr>;
          g = glean statistics;
          g' = (case glean_norm_values descriptor of
                  Some entry \<Rightarrow>
                    g\<lparr>female_glean := scaled_sum fl (female_glean g) f_factor entry,
                      male_glean := scaled_sum fl (male_glean g) m_factor entry,
                      ud_glean := scaled_sum fl (ud_glean g) ud_factor entry\<rparr>
                | None \<Rightarrow> g\<lparr>glean_not_found := add_factors (glean_not_found g) factors\<rparr>)
      in statistics\<lparr>descr := d', glean := g'\<rparr>)"


section \<open>Descriptor patterns (descr\_pars.py, lines 87 to 179)\<close>

text \<open>
  \<^verbatim>\<open>str.lower\<close> is a parameter \<open>lower\<close> of the functions that use it.  The four tests
  of the \<^verbatim>\<open>if\<close>/\<^verbatim>\<open>elif\<close> chain of lines 101 to 125:
\<close>

definition is_negation :: "doc \<Rightarrow> nat \<Rightarrow> bool" where
  "is_negation doc i =
     (tok_dep (doc ! i) = ''ng'' \<and> tok_pos (doc ! tok_head (doc ! i)) \<in> {''VERB'', ''AUX'', ''ADJ''})"

definition is_adjective :: "doc \<Rightarrow> nat \<Rightarrow> bool" where
  "is_adjective doc i =
     (tok_dep (doc ! i) = ''nk'' \<and> tok_pos (doc ! i) = ''ADJ''
      \<and> tok_pos (doc ! tok_head (doc ! i)) \<in> TARGET_POS)"

definition is_predicative :: "doc \<Rightarrow> nat \<Rightarrow> bool" where
  "is_predicative doc i =
     (tok_dep (doc ! i) \<in> {''pd'', ''oc''} \<and> tok_pos (doc ! tok_head (doc ! i)) = ''AUX''
      \<and> tok_pos (doc ! i) \<in> {''ADV'', ''VERB''})"

definition is_verb_subject :: "doc \<Rightarrow> nat \<Rightarrow> bool" where
  "is_verb_subject doc i =
     (tok_dep (doc ! i) = ''sb'' \<and> tok_pos (doc ! tok_head (doc ! i)) = ''VERB''
      \<and> tok_pos (doc ! i) \<in> TARGET_POS \<and> is_nom (doc ! i))"

text \<open>Lines 112 to 120: the target of a predicative descriptor, if there is one.\<close>

definition predicative_subject :: "doc \<Rightarrow> nat \<Rightarrow> nat option" where
  "predicative_subject doc i =
     (let h = tok_head (doc ! i); hh = tok_head (doc ! h) in
      if tok_dep (doc ! h) \<in> {''rc'', ''oc''} \<and> tok_pos (doc ! hh) \<in> TARGET_POS \<and> is_nom (doc ! hh)
      then Some hh
      else find (\<lambda>c. tok_pos (doc ! c) \<in> TARGET_POS \<and> is_nom (doc ! c)
                      \<and> tok_dep (doc ! c) \<in> {''sb'', ''oc''}) (children doc h))"

text \<open>Lines 127 to 129: the adverb or auxiliary above the verb \<open>h\<close>.\<close>

definition verb_adverb :: "doc \<Rightarrow> nat \<Rightarrow> nat option" where
  "verb_adverb doc h =
     (if tok_dep (doc ! h) = ''oc'' \<and> tok_pos (doc ! tok_head (doc ! h)) \<in> {''ADV'', ''AUX''}
      then Some (tok_head (doc ! h)) else None)"

text \<open>Lines 130 to 136: the loop over the children of the verb \<open>h\<close>, on the pair
  \<^verbatim>\<open>(svp, adv)\<close>.\<close>

definition scan_verb_children ::
  "(string \<Rightarrow> string) \<Rightarrow> doc \<Rightarrow> nat \<Rightarrow> nat option \<Rightarrow> string \<times> nat option" where
  "scan_verb_children lower doc h adv0 =
     fold (\<lambda>c (svp, adv).
            if tok_dep (doc ! c) = ''svp'' \<and> tok_head (doc ! c) = h
              then (lower (tok_lemma (doc ! c)) @ SVP_DELIMITER, adv)
            else if \<not> token_truthy doc adv \<and> tok_dep (doc ! c) \<in> {''mo'', ''oc''}
                    \<and> tok_pos (doc ! c) \<in> {''ADV'', ''AUX''}
              then (svp, Some c)
            else (svp, adv))
       (children doc h) ([], adv0)"

definition descr_conjunct :: "token \<Rightarrow> bool" where
  "descr_conjunct c =
     (tok_dep c = ''cj'' \<and> (tok_pos c = ''ADJ'' \<or> tok_pos c = ''ADV'' \<or> tok_pos c = ''VERB''))"

text \<open>Lines 158 to 163: the loop over the children of a verb conjunct, on the pair
  \<^verbatim>\<open>(svp_c, nested_descr)\<close>.\<close>

definition scan_conjunct_children ::
  "(string \<Rightarrow> string) \<Rightarrow> doc \<Rightarrow> nat \<Rightarrow> string list \<Rightarrow> string option \<times> string list" where
  "scan_conjunct_children lower doc child nested =
     fold (\<lambda>c (svp_c, nested_descr).
            if tok_dep (doc ! c) = ''svp'' \<and> tok_head (doc ! c) = child
              then (Some (lower (tok_lemma (doc ! c)) @ SVP_DELIMITER), nested_descr)
            else if tok_dep (doc ! c) \<in> {''mo'', ''oc''} \<and> tok_pos (doc ! c) \<in> {''ADV'', ''AUX''}
              then (svp_c, nested_descr @ [lower (tok_lemma (doc ! c))])
            else (svp_c, nested_descr))
       (children doc child) (None, nested)"

text \<open>Lines 156 to 165: what a followed descriptor conjunct appends to
  \<^verbatim>\<open>nested_descr\<close>.\<close>

definition conjunct_lemmas :: "(string \<Rightarrow> string) \<Rightarrow> doc \<Rightarrow> nat \<Rightarrow> string list \<Rightarrow> string list" where
  "conjunct_lemmas lower doc child nested =
     (case (if tok_pos (doc ! child) = ''VERB'' then scan_conjunct_children lower doc child nested
            else (None, nested)) of
        (svp_c, nested_descr) \<Rightarrow>
          (case svp_c of
             Some s \<Rightarrow>
               if s \<noteq> [] then nested_descr @ [s @ lower (tok_lemma (doc ! child))]
               else nested_descr @ [lower (tok_lemma (doc ! child))]
           | None \<Rightarrow> nested_descr @ [lower (tok_lemma (doc ! child))]))"

text \<open>Lines 150 to 172: the \<^verbatim>\<open>while new_children\<close> loop over the conjuncts of a
  descriptor.\<close>

partial_function (option) descr_walk ::
  "(string \<Rightarrow> string) \<Rightarrow> doc \<Rightarrow> nat \<Rightarrow> string list \<Rightarrow> string list option" where
  "descr_walk lower doc tk nested =
    (case find (\<lambda>c. descr_conjunct (doc ! c) \<or> conj_link (doc ! c)) (children doc tk) of
       None \<Rightarrow> Some nested
     | Some child \<Rightarrow>
        if descr_conjunct (doc ! child)
          then descr_walk lower doc child (conjunct_lemmas lower doc child nested)
        else descr_walk lower doc child nested)"

declare descr_walk.simps [code]

text \<open>
  Lines 146 to 173.  \<^verbatim>\<open>nested_descr\<close> is emptied again before the walk from each of
  \<^verbatim>\<open>(descriptor, adv)\<close> that is a non-empty token, so the walk from \<^verbatim>\<open>adv\<close>
  replaces what the walk from the descriptor found.
\<close>

definition nested_descriptors ::
  "(string \<Rightarrow> string) \<Rightarrow> doc \<Rightarrow> nat \<Rightarrow> nat option \<Rightarrow> string list option" where
  "nested_descriptors lower doc descriptor adv =
     do {
       n1 \<leftarrow> (if token_truthy doc (Some descriptor) then descr_walk lower doc descriptor []
               else Some []);
       n2 \<leftarrow> (case adv of
                 None \<Rightarrow> Some n1
               | Some a \<Rightarrow> if token_truthy doc (Some a) then descr_walk lower doc a [] else Some n1);
       Some (case adv of
               None \<Rightarrow> n2
             | Some a \<Rightarrow> if token_truthy doc (Some a) then n2 @ [lower (tok_lemma (doc ! a))] else n2)
     }"

text \<open>Lines 142 to 179: what is done with a descriptor once its vector is known.\<close>

definition record_descriptor ::
  "'f float_ops \<Rightarrow> (string \<Rightarrow> string) \<Rightarrow> 'f lexicon \<Rightarrow> doc \<Rightarrow> 'f Statistics \<Rightarrow> occurrences \<Rightarrow> nat \<Rightarrow> nat option \<Rightarrow> string
     \<Rightarrow> 'f Statistics option" where
  "record_descriptor fl lower glean_norm_values doc statistics factors descriptor adv svp =
     (if female_occurrences factors = 0 \<and> male_occurrences factors = 0 \<and> undetermined factors = 0
      then Some statistics
      else do {
        nested_descr \<leftarrow> nested_descriptors lower doc descriptor adv;
        Some (fold (\<lambda>descr s. add_descriptor fl glean_norm_values descr factors s) nested_descr
               (add_descriptor fl glean_norm_values (svp @ lower (tok_lemma (doc ! descriptor)))
                  factors statistics))
      })"

text \<open>The body of the loop over the tokens, for the token at position \<open>i\<close>.\<close>

definition parse_token ::
  "'f float_ops \<Rightarrow> (string \<Rightarrow> string) \<Rightarrow> 'f lexicon \<Rightarrow> doc \<Rightarrow> 'f Statistics \<Rightarrow> nat \<Rightarrow> 'f Statistics option" where
  "parse_token fl lower glean_norm_values doc statistics i =
     (let h = tok_head (doc ! i) in
      if is_negation doc i
        then Some (statistics\<lparr>descr := (descr statistics)\<lparr>num_neg := num_neg (descr statistics) + 1\<rparr>\<rparr>)
      else if is_adjective doc i then
        do {
          factors \<leftarrow> obtain_gender_occurrences doc (Some h);
          record_descriptor fl lower glean_norm_values doc statistics factors i None []
        }
      else if is_predicative doc i then
        do {
          factors \<leftarrow> obtain_gender_occurrences doc (predicative_subject doc i);
          record_descriptor fl lower glean_norm_values doc statistics factors i None []
        }
      else if is_verb_subject doc i then
        do {
          factors \<leftarrow> obtain_gender_occurrences doc (Some i);
          (case scan_verb_children lower doc h (verb_adverb doc h) of
             (svp, adv) \<Rightarrow> record_descriptor fl lower glean_norm_values doc statistics factors h adv svp)
        }
      else Some statistics)"

fun parse_tokens ::
  "'f float_ops \<Rightarrow> (string \<Rightarrow> string) \<Rightarrow> 'f lexicon \<Rightarrow> doc \<Rightarrow> nat list \<Rightarrow> 'f Statistics \<Rightarrow> 'f Statistics option" where
  "parse_tokens fl lower glean_norm_values doc [] statistics = Some statistics"
| "parse_tokens fl lower glean_norm_values doc (i # rest) statistics =
     (case parse_token fl lower glean_norm_values doc statistics i of
        None \<Rightarrow> None
      | Some statistics' \<Rightarrow> parse_tokens fl lower glean_norm_values doc rest statistics')"

definition parse_descriptors ::
  "'f float_ops \<Rightarrow> (string \<Rightarrow> string) \<Rightarrow> 'f lexicon \<Rightarrow> doc \<Rightarrow> 'f Statistics \<Rightarrow> 'f Statistics option" where
  "parse_descriptors fl lower glean_norm_values doc statistics =
     parse_tokens fl lower glean_norm_values doc [0..<length doc] statistics"


section \<open>The gender tag resolver (fa\_prn.py, lines 45 to 64)\<close>

text \<open>
  The lists \<^verbatim>\<open>doc._.prn_male\<close> and \<^verbatim>\<open>doc._.prn_female\<close> are filled by
  \<^verbatim>\<open>setup\<close> from a file; they are parameters here.  \<open>tag_token\<close> is the body of the
  loop over the tokens.
\<close>

definition tag_token :: "string list \<Rightarrow> string list \<Rightarrow> token \<Rightarrow> token" where
  "tag_token prn_male prn_female t =
     (if tok_pos t \<noteq> ''NOUN'' \<and> tok_pos t \<noteq> ''PROPN'' then t
      else if tok_lemma t \<in> set prn_male then t\<lparr>tok_gender := Some ''PRN:M''\<rparr>
      else if tok_lemma t \<in> set prn_female then t\<lparr>tok_gender := Some ''PRN:F''\<rparr>
      else t)"

definition gender_prn :: "string list \<Rightarrow> string list \<Rightarrow> doc \<Rightarrow> doc" where
  "gender_prn prn_male prn_female doc = map (tag_token prn_male prn_female) doc"


section \<open>Counting entities, nouns and inclusive spellings\<close>


datatype error = KeyError | IndexError









section \<open>The corpus run (main.py)\<close>

text \<open>Lines 243 to 247: the statistics before the first article; \<open>matchers\<close> are the names of
  the inclusive-spelling matchers, in the order of the dictionary that \<^verbatim>\<open>byd_mw.setup\<close>
  returns.\<close>

definition initial_statistics :: "'f float_ops \<Rightarrow> string list \<Rightarrow> 'f Statistics" where
  "initial_statistics fl matchers =
     new_Statistics (new_PER Map.empty Map.empty Map.empty Map.empty Map.empty)
       (new_PRN Map.empty Map.empty) (new_DESCR Map.empty Map.empty Map.empty) (new_GLEAN fl)
       (new_BYD_MW Map.empty (map (\<lambda>name. (name, 0)) matchers))"






text \<open>Lines 269 to 279: the row of the statistics table.  A table is read with
  \<^verbatim>\<open>d[key]\<close> and a list with \<^verbatim>\<open>xs[i]\<close>, left to right.\<close>

datatype 'f cell = Text string | Count int | Amount 'f

fun lookups :: "(string \<times> int) list \<Rightarrow> string list \<Rightarrow> error + 'f cell list" where
  "lookups d [] = Inr []"
| "lookups d (key # keys) =
     (case map_of d key of
        None \<Rightarrow> Inl KeyError
      | Some v \<Rightarrow> (case lookups d keys of Inl e \<Rightarrow> Inl e | Inr cells \<Rightarrow> Inr (Count v # cells)))"

fun indices :: "'f list \<Rightarrow> nat list \<Rightarrow> error + 'f cell list" where
  "indices xs [] = Inr []"
| "indices xs (i # rest) =
     (if i < length xs
      then (case indices xs rest of Inl e \<Rightarrow> Inl e | Inr cells \<Rightarrow> Inr (Amount (xs ! i) # cells))
      else Inl IndexError)"

fun concat_cells :: "(error + 'f cell list) list \<Rightarrow> error + 'f cell list" where
  "concat_cells [] = Inr []"
| "concat_cells (part # parts) =
     (case part of
        Inl e \<Rightarrow> Inl e
      | Inr cells \<Rightarrow> (case concat_cells parts of Inl e \<Rightarrow> Inl e | Inr others \<Rightarrow> Inr (cells @ others)))"

definition stats_row :: "string \<Rightarrow> 'f Statistics \<Rightarrow> error + 'f cell list" where
  "stats_row file_name statistics =
     concat_cells
       [Inr [Text (without_last 5 file_name), Count (token_num statistics),
             Count (num_slashes statistics)],
        lookups (num_matches_per (per statistics)) [PER_weiblich, PER_maennlich, ''PER:NA'', ''PER:AMB''],
        lookups (num_matches_prn (prn statistics)) [''PRN:F'', ''PRN:M''],
        lookups (num_matches_descr (descr statistics)) [''DESCR:F'', ''DESCR:M'', ''DESCR:NA''],
        Inr [Count (num_neg (descr statistics))],
        indices (female_glean (glean statistics)) [0, 1, 2, 3],
        indices (male_glean (glean statistics)) [0, 1, 2, 3],
        indices (ud_glean (glean statistics)) [0, 1, 2, 3],
        lookups (glean_not_found (glean statistics)) [''DESCR:F'', ''DESCR:M'', ''DESCR:NA''],
        Inr (map (\<lambda>(name, v). Count v) (num_matches (byd_mw statistics)))]"





section \<open>Counts carried from one article to the next\<close>

text \<open>
  Adding the counts of two dictionaries key by key, a missing key counting as 0, and the
  same for the dictionary of match lists.  \<open>carry prev_stats statistics\<close> adds the word
  counts of \<open>prev_stats\<close> to those of \<open>statistics\<close> and keeps every other field of
  \<open>statistics\<close>.
\<close>

definition merge_counts :: "(string \<rightharpoonup> int) \<Rightarrow> (string \<rightharpoonup> int) \<Rightarrow> (string \<rightharpoonup> int)" where
  "merge_counts p m =
     (\<lambda>k. if p k = None \<and> m k = None then None else Some (dict_get p k + dict_get m k))"

definition list_of :: "(string \<rightharpoonup> (string \<rightharpoonup> int)) \<Rightarrow> string \<Rightarrow> (string \<rightharpoonup> int)" where
  "list_of ml name = (case ml name of None \<Rightarrow> Map.empty | Some m \<Rightarrow> m)"

definition merge_lists ::
  "(string \<rightharpoonup> (string \<rightharpoonup> int)) \<Rightarrow> (string \<rightharpoonup> (string \<rightharpoonup> int)) \<Rightarrow> (string \<rightharpoonup> (string \<rightharpoonup> int))" where
  "merge_lists p m =
     (\<lambda>name. if p name = None \<and> m name = None then None
             else Some (merge_counts (list_of p name) (list_of m name)))"

definition carry :: "'f Statistics \<Rightarrow> 'f Statistics \<Rightarrow> 'f Statistics" where
  "carry prev_stats statistics =
     statistics\<lparr>
       per := (per statistics)\<lparr>
         female_per := merge_counts (female_per (per prev_stats)) (female_per (per statistics)),
         male_per := merge_counts (male_per (per prev_stats)) (male_per (per statistics)),
         amb_per := merge_counts (amb_per (per prev_stats)) (amb_per (per statistics)),
         nh_per := merge_counts (nh_per (per prev_stats)) (nh_per (per statistics)),
         ud_per := merge_counts (ud_per (per prev_stats)) (ud_per (per statistics))\<rparr>,
       prn := (prn statistics)\<lparr>
         female_prn := merge_counts (female_prn (prn prev_stats)) (female_prn (prn statistics)),
         male_prn := merge_counts (male_prn (prn prev_stats)) (male_prn (prn statistics))\<rparr>,
       descr := (descr statistics)\<lparr>
         female_descriptors :=
           merge_counts (female_descriptors (descr prev_stats)) (female_descriptors (descr statistics)),
         male_descriptors :=
           merge_counts (male_descriptors (descr prev_stats)) (male_descriptors (descr statistics)),
         ud_descriptors :=
           merge_counts (ud_descriptors (descr prev_stats)) (ud_descriptors (descr statistics))\<rparr>,
       byd_mw := (byd_mw statistics)\<lparr>
         match_lists := merge_lists (match_lists (byd_mw prev_stats)) (match_lists (byd_mw statistics))\<rparr>\<rparr>"


section \<open>Example documents\<close>

definition noun :: "string \<Rightarrow> string \<Rightarrow> nat \<Rightarrow> string option \<Rightarrow> token" where
  "noun l d h g = \<lparr>tok_text = l, tok_lemma = l, tok_pos = ''NOUN'', tok_dep = d, tok_head = h,
     tok_case = [''Nom''], tok_ent_type = [], tok_gender = g\<rparr>"

definition word :: "string \<Rightarrow> string \<Rightarrow> string \<Rightarrow> nat \<Rightarrow> token" where
  "word l p d h = \<lparr>tok_text = l, tok_lemma = l, tok_pos = p, tok_dep = d, tok_head = h,
     tok_case = [], tok_ent_type = [], tok_gender = None\<rparr>"

text \<open>Lehrerin (female) -cj-> Gast (no gender tag, no entity label) -cj-> Lehrer (male).\<close>

definition untagged_chain :: doc where
  "untagged_chain =
     [noun ''Lehrerin'' ''sb'' 0 (Some ''PRN:F''),
      noun ''Gast'' ''cj'' 0 None,
      noun ''Lehrer'' ''cj'' 1 (Some ''PRN:M'')]"

text \<open>Lehrerin (female) -cj-> Alex (entity label \<^verbatim>\<open>PER:divers\<close>) -cj-> Lehrer (male).\<close>

definition other_label_chain :: doc where
  "other_label_chain =
     [noun ''Lehrerin'' ''sb'' 0 (Some ''PRN:F''),
      (noun ''Alex'' ''cj'' 0 None)\<lparr>tok_pos := ''PROPN'', tok_ent_type := ''PER:divers''\<rparr>,
      noun ''Lehrer'' ''cj'' 1 (Some ''PRN:M'')]"

text \<open>Lehrerin (female) -cd-> und -cj-> Mutter (female) -cj-> Tante (female).\<close>

definition female_chain :: doc where
  "female_chain =
     [noun ''Lehrerin'' ''sb'' 0 (Some ''PRN:F''),
      word ''und'' ''CCONJ'' ''cd'' 0,
      noun ''Mutter'' ''cj'' 1 (Some ''PRN:F''),
      noun ''Tante'' ''cj'' 2 (Some ''PRN:F'')]"

text \<open>
  Float operations for the examples: real numbers without rounding.  The examples use them
  on the values 0, 1, 2, 5/2, 3, 7/2 and 4 only.
\<close>

definition exact_arith :: "real float_ops" where
  "exact_arith = \<lparr>fl_zero = 0, fl_add = (+), fl_mul = (\<lambda>k x. real_of_int k * x)\<rparr>"

text \<open>A lexicon with one entry, for \<open>schoen\<close> written with its umlaut.\<close>

definition glean_example :: "real lexicon" where
  "glean_example = [''sch'' @ [CHR 0xC3, CHR 0xB6] @ ''n'' \<mapsto> [3, 5/2, 4, 7/2]]"


text \<open>A lower-casing function for the examples; it changes the letters A to Z only.\<close>

definition ascii_lower :: "string \<Rightarrow> string" where
  "ascii_lower s =
     map (\<lambda>c. if 65 \<le> (of_char c :: nat) \<and> (of_char c :: nat) \<le> 90 then char_of (of_char c + 32 :: nat) else c) s"

definition token_of :: "string \<Rightarrow> string \<Rightarrow> string \<Rightarrow> string \<Rightarrow> nat \<Rightarrow> token" where
  "token_of t l p d h = \<lparr>tok_text = t, tok_lemma = l, tok_pos = p, tok_dep = d, tok_head = h,
     tok_case = [], tok_ent_type = [], tok_gender = None\<rparr>"

text \<open>``Die Lehrerin steht auf.''\<close>

definition particle_sentence :: doc where
  "particle_sentence =
     [token_of ''Die'' ''der'' ''DET'' ''nk'' 1,
      noun ''Lehrerin'' ''sb'' 2 (Some ''PRN:F''),
      token_of ''steht'' ''stehen'' ''VERB'' ''ROOT'' 2,
      token_of ''auf'' ''auf'' ''ADP'' ''svp'' 2,
      token_of ''.'' ''.'' ''PUNCT'' ''punct'' 2]"


text \<open>``Die Lehrerin ruht nicht.''\<close>

definition negation_sentence :: doc where
  "negation_sentence =
     [token_of ''Die'' ''der'' ''DET'' ''nk'' 1,
      noun ''Lehrerin'' ''sb'' 2 (Some ''PRN:F''),
      token_of ''ruht'' ''ruhen'' ''VERB'' ''ROOT'' 2,
      token_of ''nicht'' ''nicht'' ''PART'' ''ng'' 2]"

text \<open>``Das alte Haus'': the noun has neither a gender tag nor an entity label.\<close>

definition house_phrase :: doc where
  "house_phrase =
     [token_of ''Das'' ''der'' ''DET'' ''nk'' 2,
      token_of ''alte'' ''alt'' ''ADJ'' ''nk'' 2,
      noun ''Haus'' ''ROOT'' 2 None]"





text \<open>Untagged tokens for the resolver: ``Gast'' is in both lists, ``lehren'' is a verb
  whose lemma is in the male list.\<close>

definition untagged_tokens :: doc where
  "untagged_tokens =
     [token_of ''Lehrer'' ''Lehrer'' ''NOUN'' ''sb'' 4,
      token_of ''Lehrerin'' ''Lehrerin'' ''PROPN'' ''cj'' 0,
      token_of ''Gast'' ''Gast'' ''NOUN'' ''cj'' 1,
      token_of ''Haus'' ''Haus'' ''NOUN'' ''cj'' 2,
      token_of ''lehren'' ''lehren'' ''VERB'' ''ROOT'' 4]"







section \<open>Properties of the target walk\<close>

lemma starting_target_cases:
  "starting_target t = no_occurrences \<or> starting_target t = add_female no_occurrences
   \<or> starting_target t = add_male no_occurrences
   \<or> starting_target t = add_undetermined no_occurrences"
  by (simp add: starting_target_def)

lemma conj_walk_grows:
  "conj_walk doc tk v = Some r \<Longrightarrow>
     female_occurrences v \<le> female_occurrences r \<and> male_occurrences v \<le> male_occurrences r
     \<and> undetermined v \<le> undetermined r"
proof (induction rule: conj_walk.raw_induct [rotated 1, consumes 1])
  case (1 walk doc tk v r)
  show ?case
  proof (cases "find (\<lambda>c. target_conjunct (doc ! c) \<or> conj_link (doc ! c)) (children doc tk)")
    case None
    with 1(2) show ?thesis by simp
  next
    case (Some child)
    have step: "\<And>w. walk doc child w = Some r \<Longrightarrow>
        female_occurrences w \<le> female_occurrences r \<and> male_occurrences w \<le> male_occurrences r
        \<and> undetermined w \<le> undetermined r"
      by (rule 1(1))
    from 1(2) Some show ?thesis
      by (auto simp: add_female_def add_male_def add_undetermined_def
               split: if_splits dest!: step)
  qed
qed

text \<open>
  Claim C10.  Called without a target (the predicative pattern passes \<^verbatim>\<open>None\<close> when the
  auxiliary has no nominative subject), \<^verbatim>\<open>obtain_gender_occurrences\<close> returns the
  all-zero vector, whatever the document holds: no token is read.
\<close>

theorem obtain_gender_occurrences_no_target:
  "obtain_gender_occurrences doc None
     = Some \<lparr>female_occurrences = 0, male_occurrences = 0, undetermined = 0\<rparr>"
  by (simp add: obtain_gender_occurrences_def no_occurrences_def)

lemma untagged_chain_eval:
  "obtain_gender_occurrences untagged_chain (Some 0)
     = Some \<lparr>female_occurrences = 1, male_occurrences = 1, undetermined = 0\<rparr>"
  by code_simp

lemma female_chain_eval:
  "obtain_gender_occurrences female_chain (Some 0)
     = Some \<lparr>female_occurrences = 3, male_occurrences = 0, undetermined = 0\<rparr>"
  by code_simp

text \<open>
  Claim C9.  Whenever \<^verbatim>\<open>obtain_gender_occurrences\<close> returns, the three components of
  the vector are non-negative.  The starting target contributes to at most one leg (its
  three legs are 0 or 1 and sum to at most 1), the chain walk only adds to what the starting
  target contributed, and a chain can push a component above 1: the chain of three female
  nouns yields 3.
\<close>

theorem obtain_gender_occurrences_vector:
  "(obtain_gender_occurrences doc t = Some v \<longrightarrow>
      0 \<le> female_occurrences v \<and> 0 \<le> male_occurrences v \<and> 0 \<le> undetermined v)
   \<and> (0 \<le> female_occurrences (starting_target tok) \<and> 0 \<le> male_occurrences (starting_target tok)
      \<and> 0 \<le> undetermined (starting_target tok)
      \<and> female_occurrences (starting_target tok) + male_occurrences (starting_target tok)
          + undetermined (starting_target tok) \<le> 1)
   \<and> (token_truthy doc (Some i) \<and> obtain_gender_occurrences doc (Some i) = Some v \<longrightarrow>
        female_occurrences (starting_target (doc ! i)) \<le> female_occurrences v
      \<and> male_occurrences (starting_target (doc ! i)) \<le> male_occurrences v
      \<and> undetermined (starting_target (doc ! i)) \<le> undetermined v)
   \<and> obtain_gender_occurrences female_chain (Some 0)
        = Some \<lparr>female_occurrences = 3, male_occurrences = 0, undetermined = 0\<rparr>"
proof -
  have start: "0 \<le> female_occurrences (starting_target x) \<and> 0 \<le> male_occurrences (starting_target x)
      \<and> 0 \<le> undetermined (starting_target x)
      \<and> female_occurrences (starting_target x) + male_occurrences (starting_target x)
          + undetermined (starting_target x) \<le> 1" for x
    using starting_target_cases [of x]
    by (auto simp: no_occurrences_def add_female_def add_male_def add_undetermined_def)
  have above: "female_occurrences (starting_target (doc ! j)) \<le> female_occurrences w
      \<and> male_occurrences (starting_target (doc ! j)) \<le> male_occurrences w
      \<and> undetermined (starting_target (doc ! j)) \<le> undetermined w"
    if "token_truthy doc (Some j)" "obtain_gender_occurrences doc (Some j) = Some w" for j w
  proof -
    from that have "conj_walk doc j (starting_target (doc ! j)) = Some w"
      by (simp add: obtain_gender_occurrences_def)
    then show ?thesis by (rule conj_walk_grows)
  qed
  have nonneg: "0 \<le> female_occurrences v \<and> 0 \<le> male_occurrences v \<and> 0 \<le> undetermined v"
    if ret: "obtain_gender_occurrences doc t = Some v"
  proof (cases t)
    case None
    with ret show ?thesis
      by (auto simp: obtain_gender_occurrences_def no_occurrences_def)
  next
    case (Some j)
    show ?thesis
    proof (cases "token_truthy doc (Some j)")
      case True
      with ret Some above [of j v] start [of "doc ! j"] show ?thesis by force
    next
      case False
      with ret Some show ?thesis
        by (auto simp: obtain_gender_occurrences_def no_occurrences_def)
    qed
  qed
  from start [of tok] above nonneg female_chain_eval show ?thesis by blast
qed

theorem obtain_gender_occurrences_vector_witness:
  "obtain_gender_occurrences untagged_chain (Some 0)
      = Some \<lparr>female_occurrences = 1, male_occurrences = 1, undetermined = 0\<rparr>
   \<and> token_truthy untagged_chain (Some 0)
   \<and> starting_target (untagged_chain ! 0)
      = \<lparr>female_occurrences = 1, male_occurrences = 0, undetermined = 0\<rparr>
   \<and> (0::int) \<le> 1 \<and> female_occurrences (starting_target (untagged_chain ! 0)) \<le> 1"
proof -
  have t: "token_truthy untagged_chain (Some 0)" by code_simp
  have s: "starting_target (untagged_chain ! 0)
      = \<lparr>female_occurrences = 1, male_occurrences = 0, undetermined = 0\<rparr>" by code_simp
  from obtain_gender_occurrences_vector
         [of untagged_chain "Some 0"
             "\<lparr>female_occurrences = 1, male_occurrences = 1, undetermined = 0\<rparr>"
             "untagged_chain ! 0" 0]
       untagged_chain_eval t s
  show ?thesis by simp
qed

text \<open>
  Claim C1, as stated, fails.  In \<open>untagged_chain\<close> the conjunct followed from the starting
  target is a nominative NOUN in relation \<open>cj\<close> with no gender tag and no PER entity label;
  the walk does not end there, and the male conjunct behind it is counted.
\<close>

theorem conj_walk_untagged_counterexample:
  "find (\<lambda>c. target_conjunct (untagged_chain ! c) \<or> conj_link (untagged_chain ! c))
        (children untagged_chain 0) = Some 1
   \<and> target_conjunct (untagged_chain ! 1)
   \<and> tok_gender (untagged_chain ! 1) = None
   \<and> \<not> startswith (tok_ent_type (untagged_chain ! 1)) ''PER:''
   \<and> tok_gender (untagged_chain ! 2) = Some ''PRN:M''
   \<and> obtain_gender_occurrences untagged_chain (Some 0)
        = Some \<lparr>female_occurrences = 1, male_occurrences = 1, undetermined = 0\<rparr>
   \<and> obtain_gender_occurrences untagged_chain (Some 0)
        \<noteq> Some (starting_target (untagged_chain ! 0))"
  by code_simp

text \<open>
  Claim C1, amended.  One round of the walk from \<open>tk\<close>, with the vector \<open>v\<close> collected
  so far.  If no child of \<open>tk\<close> is a nominative NOUN/PROPN in relation \<open>cj\<close> or a
  coordinating conjunction, the walk ends with \<open>v\<close>.  Otherwise let \<open>child\<close> be the first
  such child.  A coordinating conjunction is followed without counting.  A followed
  conjunct is counted and followed when its gender tag is \<^verbatim>\<open>PRN:F\<close> or \<^verbatim>\<open>PRN:M\<close>,
  or when it has no gender tag and its entity label is one of the four known PER labels.  A
  followed conjunct with no gender tag and no PER entity label is followed with the vector
  unchanged, so the walk does not end there and later conjuncts are still counted.  The
  walk is cut at \<open>child\<close>, returning \<open>v\<close>, in exactly the two remaining cases: the gender
  tag is set but is neither \<^verbatim>\<open>PRN:F\<close> nor \<^verbatim>\<open>PRN:M\<close>, or there is no gender tag and
  the entity label starts with \<^verbatim>\<open>PER:\<close> but is none of the four known labels.
\<close>

theorem conj_walk_cut:
  "(find (\<lambda>c. target_conjunct (doc ! c) \<or> conj_link (doc ! c)) (children doc tk) = None
      \<longrightarrow> conj_walk doc tk v = Some v)
   \<and> (find (\<lambda>c. target_conjunct (doc ! c) \<or> conj_link (doc ! c)) (children doc tk) = Some child
      \<longrightarrow>
        (\<not> target_conjunct (doc ! child) \<longrightarrow> conj_walk doc tk v = conj_walk doc child v)
      \<and> (target_conjunct (doc ! child) \<longrightarrow>
            (tok_gender (doc ! child) = Some ''PRN:F''
               \<longrightarrow> conj_walk doc tk v = conj_walk doc child (add_female v))
          \<and> (tok_gender (doc ! child) = Some ''PRN:M''
               \<longrightarrow> conj_walk doc tk v = conj_walk doc child (add_male v))
          \<and> (truthy (tok_gender (doc ! child)) \<and> tok_gender (doc ! child) \<noteq> Some ''PRN:F''
                \<and> tok_gender (doc ! child) \<noteq> Some ''PRN:M''
               \<longrightarrow> conj_walk doc tk v = Some v)
          \<and> (\<not> truthy (tok_gender (doc ! child)) \<and> tok_ent_type (doc ! child) = PER_weiblich
               \<longrightarrow> conj_walk doc tk v = conj_walk doc child (add_female v))
          \<and> (\<not> truthy (tok_gender (doc ! child)) \<and> tok_ent_type (doc ! child) = PER_maennlich
               \<longrightarrow> conj_walk doc tk v = conj_walk doc child (add_male v))
          \<and> (\<not> truthy (tok_gender (doc ! child))
                \<and> (tok_ent_type (doc ! child) = ''PER:NA'' \<or> tok_ent_type (doc ! child) = ''PER:AMB'')
               \<longrightarrow> conj_walk doc tk v = conj_walk doc child (add_undetermined v))
          \<and> (\<not> truthy (tok_gender (doc ! child)) \<and> startswith (tok_ent_type (doc ! child)) ''PER:''
                \<and> tok_ent_type (doc ! child) \<notin> {PER_weiblich, PER_maennlich, ''PER:NA'', ''PER:AMB''}
               \<longrightarrow> conj_walk doc tk v = Some v)
          \<and> (\<not> truthy (tok_gender (doc ! child)) \<and> \<not> startswith (tok_ent_type (doc ! child)) ''PER:''
               \<longrightarrow> conj_walk doc tk v = conj_walk doc child v)))"
proof -
  let ?found = "find (\<lambda>c. target_conjunct (doc ! c) \<or> conj_link (doc ! c)) (children doc tk)"
  note step = conj_walk.simps [of doc tk v]
  have labels: "startswith PER_weiblich ''PER:''" "startswith PER_maennlich ''PER:''"
    "startswith ''PER:NA'' ''PER:''" "startswith ''PER:AMB'' ''PER:''"
    "PER_maennlich \<noteq> PER_weiblich" "''PER:NA'' \<noteq> PER_weiblich" "''PER:AMB'' \<noteq> PER_weiblich"
    "''PER:NA'' \<noteq> PER_maennlich" "''PER:AMB'' \<noteq> PER_maennlich"
    by (simp_all add: startswith_def PER_weiblich_def PER_maennlich_def)
  have tags: "truthy (Some ''PRN:F'')" "truthy (Some ''PRN:M'')"
    by (simp_all add: truthy_def)
  have none: "conj_walk doc tk v = Some v" if "?found = None"
    using that by (simp add: step)
  have link: "conj_walk doc tk v = conj_walk doc child v"
    if "?found = Some child" "\<not> target_conjunct (doc ! child)"
    using that by (simp add: step)
  have f: "conj_walk doc tk v = conj_walk doc child (add_female v)"
    if "?found = Some child" "target_conjunct (doc ! child)" "tok_gender (doc ! child) = Some ''PRN:F''"
    using that by (simp add: step tags)
  have m: "conj_walk doc tk v = conj_walk doc child (add_male v)"
    if "?found = Some child" "target_conjunct (doc ! child)" "tok_gender (doc ! child) = Some ''PRN:M''"
    using that by (simp add: step tags)
  have other_tag: "conj_walk doc tk v = Some v"
    if "?found = Some child" "target_conjunct (doc ! child)" "truthy (tok_gender (doc ! child))"
      "tok_gender (doc ! child) \<noteq> Some ''PRN:F''" "tok_gender (doc ! child) \<noteq> Some ''PRN:M''"
    using that by (simp add: step)
  have pf: "conj_walk doc tk v = conj_walk doc child (add_female v)"
    if "?found = Some child" "target_conjunct (doc ! child)" "\<not> truthy (tok_gender (doc ! child))"
      "tok_ent_type (doc ! child) = PER_weiblich"
    using that by (simp add: step labels)
  have pm: "conj_walk doc tk v = conj_walk doc child (add_male v)"
    if "?found = Some child" "target_conjunct (doc ! child)" "\<not> truthy (tok_gender (doc ! child))"
      "tok_ent_type (doc ! child) = PER_maennlich"
    using that by (simp add: step labels)
  have pu: "conj_walk doc tk v = conj_walk doc child (add_undetermined v)"
    if "?found = Some child" "target_conjunct (doc ! child)" "\<not> truthy (tok_gender (doc ! child))"
      "tok_ent_type (doc ! child) = ''PER:NA'' \<or> tok_ent_type (doc ! child) = ''PER:AMB''"
    using that labels by (auto simp add: step)
  have other_label: "conj_walk doc tk v = Some v"
    if "?found = Some child" "target_conjunct (doc ! child)" "\<not> truthy (tok_gender (doc ! child))"
      "startswith (tok_ent_type (doc ! child)) ''PER:''"
      "tok_ent_type (doc ! child) \<notin> {PER_weiblich, PER_maennlich, ''PER:NA'', ''PER:AMB''}"
    using that by (simp add: step)
  have untagged: "conj_walk doc tk v = conj_walk doc child v"
    if "?found = Some child" "target_conjunct (doc ! child)" "\<not> truthy (tok_gender (doc ! child))"
      "\<not> startswith (tok_ent_type (doc ! child)) ''PER:''"
    using that by (simp add: step)
  from none link f m other_tag pf pm pu other_label untagged show ?thesis by blast
qed

theorem conj_walk_cut_witness:
  "find (\<lambda>c. target_conjunct (untagged_chain ! c) \<or> conj_link (untagged_chain ! c))
        (children untagged_chain 0) = Some 1
   \<and> target_conjunct (untagged_chain ! 1)
   \<and> \<not> truthy (tok_gender (untagged_chain ! 1))
   \<and> \<not> startswith (tok_ent_type (untagged_chain ! 1)) ''PER:''
   \<and> conj_walk untagged_chain 0 (starting_target (untagged_chain ! 0))
      = conj_walk untagged_chain 1 (starting_target (untagged_chain ! 0))
   \<and> find (\<lambda>c. target_conjunct (other_label_chain ! c) \<or> conj_link (other_label_chain ! c))
        (children other_label_chain 0) = Some 1
   \<and> target_conjunct (other_label_chain ! 1)
   \<and> \<not> truthy (tok_gender (other_label_chain ! 1))
   \<and> startswith (tok_ent_type (other_label_chain ! 1)) ''PER:''
   \<and> tok_ent_type (other_label_chain ! 1) \<notin> {PER_weiblich, PER_maennlich, ''PER:NA'', ''PER:AMB''}
   \<and> conj_walk other_label_chain 0 (starting_target (other_label_chain ! 0))
      = Some (starting_target (other_label_chain ! 0))
   \<and> find (\<lambda>c. target_conjunct (female_chain ! c) \<or> conj_link (female_chain ! c))
        (children female_chain 0) = Some 1
   \<and> \<not> target_conjunct (female_chain ! 1)
   \<and> find (\<lambda>c. target_conjunct (female_chain ! c) \<or> conj_link (female_chain ! c))
        (children female_chain 1) = Some 2
   \<and> target_conjunct (female_chain ! 2) \<and> tok_gender (female_chain ! 2) = Some ''PRN:F''
   \<and> find (\<lambda>c. target_conjunct (female_chain ! c) \<or> conj_link (female_chain ! c))
        (children female_chain 2) = Some 3
   \<and> target_conjunct (female_chain ! 3) \<and> tok_gender (female_chain ! 3) = Some ''PRN:F''
   \<and> find (\<lambda>c. target_conjunct (female_chain ! c) \<or> conj_link (female_chain ! c))
        (children female_chain 3) = None
   \<and> conj_walk female_chain 0 (add_female no_occurrences)
      = Some (add_female (add_female (add_female no_occurrences)))"
proof -
  let ?u = "starting_target (untagged_chain ! 0)"
  let ?o = "starting_target (other_label_chain ! 0)"
  let ?v = "add_female no_occurrences"
  have f: "find (\<lambda>c. target_conjunct (untagged_chain ! c) \<or> conj_link (untagged_chain ! c))
        (children untagged_chain 0) = Some 1" by code_simp
  have c: "target_conjunct (untagged_chain ! 1)" by code_simp
  have g: "\<not> truthy (tok_gender (untagged_chain ! 1))" by code_simp
  have e: "\<not> startswith (tok_ent_type (untagged_chain ! 1)) ''PER:''" by code_simp
  have f': "find (\<lambda>c. target_conjunct (other_label_chain ! c) \<or> conj_link (other_label_chain ! c))
        (children other_label_chain 0) = Some 1" by code_simp
  have c': "target_conjunct (other_label_chain ! 1)" by code_simp
  have g': "\<not> truthy (tok_gender (other_label_chain ! 1))" by code_simp
  have e': "startswith (tok_ent_type (other_label_chain ! 1)) ''PER:''" by code_simp
  have n': "tok_ent_type (other_label_chain ! 1) \<notin> {PER_weiblich, PER_maennlich, ''PER:NA'', ''PER:AMB''}"
    by code_simp
  have f0: "find (\<lambda>c. target_conjunct (female_chain ! c) \<or> conj_link (female_chain ! c))
        (children female_chain 0) = Some 1" by code_simp
  have c0: "\<not> target_conjunct (female_chain ! 1)" by code_simp
  have f1: "find (\<lambda>c. target_conjunct (female_chain ! c) \<or> conj_link (female_chain ! c))
        (children female_chain 1) = Some 2" by code_simp
  have c1: "target_conjunct (female_chain ! 2)" "tok_gender (female_chain ! 2) = Some ''PRN:F''"
    by code_simp+
  have f2: "find (\<lambda>c. target_conjunct (female_chain ! c) \<or> conj_link (female_chain ! c))
        (children female_chain 2) = Some 3" by code_simp
  have c2: "target_conjunct (female_chain ! 3)" "tok_gender (female_chain ! 3) = Some ''PRN:F''"
    by code_simp+
  have f3: "find (\<lambda>c. target_conjunct (female_chain ! c) \<or> conj_link (female_chain ! c))
        (children female_chain 3) = None" by code_simp
  from conj_walk_cut [of untagged_chain 0 ?u 1] f c g e
  have go_on: "conj_walk untagged_chain 0 ?u = conj_walk untagged_chain 1 ?u" by blast
  from conj_walk_cut [of other_label_chain 0 ?o 1] f' c' g' e' n'
  have cut: "conj_walk other_label_chain 0 ?o = Some ?o" by blast
  from conj_walk_cut [of female_chain 0 ?v 1] f0 c0
  have s0: "conj_walk female_chain 0 ?v = conj_walk female_chain 1 ?v" by blast
  from conj_walk_cut [of female_chain 1 ?v 2] f1 c1
  have s1: "conj_walk female_chain 1 ?v = conj_walk female_chain 2 (add_female ?v)" by blast
  from conj_walk_cut [of female_chain 2 "add_female ?v" 3] f2 c2
  have s2: "conj_walk female_chain 2 (add_female ?v)
      = conj_walk female_chain 3 (add_female (add_female ?v))" by blast
  from conj_walk_cut [of female_chain 3 "add_female (add_female ?v)"] f3
  have s3: "conj_walk female_chain 3 (add_female (add_female ?v))
      = Some (add_female (add_female ?v))" by blast
  from s0 s1 s2 s3 have whole: "conj_walk female_chain 0 ?v = Some (add_female (add_female ?v))"
    by simp
  from f c g e go_on f' c' g' e' n' cut f0 c0 f1 c1 f2 c2 f3 whole show ?thesis by blast
qed


section \<open>Properties of recording a descriptor\<close>

lemma add_factors_three:
  "add_factors [(''DESCR:F'', x), (''DESCR:M'', y), (''DESCR:NA'', z)] factors
     = [(''DESCR:F'', x + female_occurrences factors), (''DESCR:M'', y + male_occurrences factors),
        (''DESCR:NA'', z + undetermined factors)]"
  by (simp add: add_factors_def dict_add_def)

text \<open>
  Claim C3.  For a descriptor that the sentiment lexicon does not hold, \<^verbatim>\<open>add_descriptor\<close>
  adds the female, male and undetermined legs of the vector to the three not-found counters
  and leaves the three sentiment sums as they were.  The witness is the call with
  \<^verbatim>\<open>"zzznotfound"\<close> and the vector (1, 1, 0).
\<close>

theorem add_descriptor_lexicon_miss:
  assumes "glean_norm_values descriptor = None"
    and "glean_not_found (glean statistics) = [(''DESCR:F'', nf), (''DESCR:M'', nm), (''DESCR:NA'', nu)]"
  shows "glean_not_found (glean (add_descriptor fl glean_norm_values descriptor factors statistics))
           = [(''DESCR:F'', nf + female_occurrences factors),
              (''DESCR:M'', nm + male_occurrences factors),
              (''DESCR:NA'', nu + undetermined factors)]
       \<and> female_glean (glean (add_descriptor fl glean_norm_values descriptor factors statistics))
           = female_glean (glean statistics)
       \<and> male_glean (glean (add_descriptor fl glean_norm_values descriptor factors statistics))
           = male_glean (glean statistics)
       \<and> ud_glean (glean (add_descriptor fl glean_norm_values descriptor factors statistics))
           = ud_glean (glean statistics)"
  using assms by (simp add: add_descriptor_def Let_def add_factors_three)

theorem add_descriptor_lexicon_miss_witness:
  "glean_example ''zzznotfound'' = None
   \<and> glean_not_found (glean (initial_statistics exact_arith []))
       = [(''DESCR:F'', 0), (''DESCR:M'', 0), (''DESCR:NA'', 0)]
   \<and> glean_not_found (glean (add_descriptor exact_arith glean_example ''zzznotfound''
        \<lparr>female_occurrences = 1, male_occurrences = 1, undetermined = 0\<rparr> (initial_statistics exact_arith [])))
       = [(''DESCR:F'', 1), (''DESCR:M'', 1), (''DESCR:NA'', 0)]
   \<and> female_glean (glean (add_descriptor exact_arith glean_example ''zzznotfound''
        \<lparr>female_occurrences = 1, male_occurrences = 1, undetermined = 0\<rparr> (initial_statistics exact_arith [])))
       = [0, 0, 0, 0]"
proof -
  have m: "glean_example ''zzznotfound'' = None"
    by (simp add: glean_example_def)
  have n: "glean_not_found (glean (initial_statistics exact_arith []))
       = [(''DESCR:F'', 0), (''DESCR:M'', 0), (''DESCR:NA'', 0)]"
    by (simp add: initial_statistics_def new_Statistics_def new_GLEAN_def)
  have g: "female_glean (glean (initial_statistics exact_arith [])) = [0, 0, 0, 0]"
    by (simp add: initial_statistics_def new_Statistics_def new_GLEAN_def GLEAN_INIT_def exact_arith_def)
  from add_descriptor_lexicon_miss
         [where glean_norm_values = glean_example and descriptor = "''zzznotfound''"
            and fl = exact_arith
            and statistics = "initial_statistics exact_arith []" and nf = 0 and nm = 0 and nu = 0
            and factors = "\<lparr>female_occurrences = 1, male_occurrences = 1, undetermined = 0\<rparr>"]
       m n g
  show ?thesis by simp
qed

text \<open>
  For a descriptor that the lexicon holds, each cell of the three sentiment sums becomes the
  float sum of the cell and the float product of the leg and the cell of the lexicon entry;
  the not-found counters stay as they are.  What these float results are is left to the
  float operations.
\<close>

lemma add_descriptor_found:
  assumes "glean_norm_values descriptor = Some entry"
  shows "female_glean (glean (add_descriptor fl glean_norm_values descriptor factors statistics))
           = map (\<lambda>(a, b). fl_add fl a (fl_mul fl (female_occurrences factors) b))
               (zip (female_glean (glean statistics)) entry)
       \<and> male_glean (glean (add_descriptor fl glean_norm_values descriptor factors statistics))
           = map (\<lambda>(a, b). fl_add fl a (fl_mul fl (male_occurrences factors) b))
               (zip (male_glean (glean statistics)) entry)
       \<and> ud_glean (glean (add_descriptor fl glean_norm_values descriptor factors statistics))
           = map (\<lambda>(a, b). fl_add fl a (fl_mul fl (undetermined factors) b))
               (zip (ud_glean (glean statistics)) entry)
       \<and> glean_not_found (glean (add_descriptor fl glean_norm_values descriptor factors statistics))
           = glean_not_found (glean statistics)"
  using assms by (simp add: add_descriptor_def Let_def scaled_sum_def)


section \<open>Properties of the loop over the tokens\<close>

lemma parse_tokens_append:
  "parse_tokens fl lower g doc (xs @ ys) s
     = Option.bind (parse_tokens fl lower g doc xs s) (parse_tokens fl lower g doc ys)"
  by (induction xs arbitrary: s) (simp_all split: option.splits)

lemma upt_around: "i < n \<Longrightarrow> [0..<n] = [0..<i] @ i # [Suc i..<n]"
  by (metis le_add1 less_imp_add_positive plus_nat.add_0 upt_add_eq_append upt_conv_Cons)

lemma add_descriptor_num_neg:
  "num_neg (descr (add_descriptor fl g d f s)) = num_neg (descr s)"
  by (simp add: add_descriptor_def Let_def)

lemma fold_add_descriptor_num_neg:
  "num_neg (descr (fold (\<lambda>d s. add_descriptor fl g d f s) ds s)) = num_neg (descr s)"
  by (induction ds arbitrary: s) (simp_all add: add_descriptor_num_neg)

lemma record_descriptor_num_neg:
  "record_descriptor fl lower g doc s f d adv svp = Some s' \<Longrightarrow> num_neg (descr s') = num_neg (descr s)"
  by (auto simp: record_descriptor_def fold_add_descriptor_num_neg add_descriptor_num_neg
        split: if_splits Option.bind_splits)

lemma parse_token_num_neg:
  assumes "parse_token fl lower g doc s i = Some s'"
  shows "num_neg (descr s') = num_neg (descr s) + (if is_negation doc i then 1 else 0)"
  using assms
  by (auto simp: parse_token_def Let_def split: if_splits Option.bind_splits prod.splits
        dest: record_descriptor_num_neg)

lemma parse_tokens_num_neg:
  "parse_tokens fl lower g doc is s = Some s' \<Longrightarrow>
     num_neg (descr s') = num_neg (descr s) + int (length (filter (is_negation doc) is))"
proof (induction "is" arbitrary: s)
  case Nil
  then show ?case by simp
next
  case (Cons i rest)
  from Cons.prems obtain s1 where
    one: "parse_token fl lower g doc s i = Some s1"
    and more: "parse_tokens fl lower g doc rest s1 = Some s'"
    by (auto split: option.splits)
  from parse_token_num_neg [OF one] Cons.IH [OF more] show ?case by simp
qed

text \<open>
  Claim C6.  Let the token at position \<open>i\<close> of the document be in relation \<open>ng\<close> with a
  head that is a VERB, AUX or ADJ.  The loop body adds 1 to \<^verbatim>\<open>num_neg\<close> and returns the
  statistics otherwise unchanged: nothing is recorded as a descriptor and no later pattern
  is tried.  \<^verbatim>\<open>parse_descriptors\<close> handles the tokens before \<open>i\<close>, makes exactly this
  change to the statistics they leave, and goes on with the tokens after \<open>i\<close>.  Over the
  whole document, when \<^verbatim>\<open>parse_descriptors\<close> returns, \<^verbatim>\<open>num_neg\<close> has grown by the
  number of such tokens: by 1 for each of them and by nothing for any other token.
\<close>

theorem negation_only_counts:
  assumes "i < length doc" and "is_negation doc i"
  shows "parse_token fl lower glean_norm_values doc statistics i
           = Some (statistics\<lparr>descr := (descr statistics)\<lparr>num_neg := num_neg (descr statistics) + 1\<rparr>\<rparr>)
       \<and> parse_descriptors fl lower glean_norm_values doc statistics
           = Option.bind (parse_tokens fl lower glean_norm_values doc [0..<i] statistics)
               (\<lambda>s. parse_tokens fl lower glean_norm_values doc [Suc i..<length doc]
                      (s\<lparr>descr := (descr s)\<lparr>num_neg := num_neg (descr s) + 1\<rparr>\<rparr>))
       \<and> (parse_descriptors fl lower glean_norm_values doc statistics = Some statistics' \<longrightarrow>
            num_neg (descr statistics')
              = num_neg (descr statistics)
                + int (length (filter (is_negation doc) [0..<length doc])))"
proof -
  have token: "parse_token fl lower glean_norm_values doc s i
           = Some (s\<lparr>descr := (descr s)\<lparr>num_neg := num_neg (descr s) + 1\<rparr>\<rparr>)" for s
    using assms(2) by (simp add: parse_token_def)
  have "parse_descriptors fl lower glean_norm_values doc statistics
          = parse_tokens fl lower glean_norm_values doc ([0..<i] @ i # [Suc i..<length doc]) statistics"
    using upt_around [OF assms(1)] by (simp add: parse_descriptors_def)
  also have "\<dots> = Option.bind (parse_tokens fl lower glean_norm_values doc [0..<i] statistics)
               (\<lambda>s. parse_tokens fl lower glean_norm_values doc [Suc i..<length doc]
                      (s\<lparr>descr := (descr s)\<lparr>num_neg := num_neg (descr s) + 1\<rparr>\<rparr>))"
  proof -
    have "parse_tokens fl lower glean_norm_values doc (i # [Suc i..<length doc])
            = (\<lambda>s. parse_tokens fl lower glean_norm_values doc [Suc i..<length doc]
                      (s\<lparr>descr := (descr s)\<lparr>num_neg := num_neg (descr s) + 1\<rparr>\<rparr>))"
      by (rule ext) (simp add: token)
    then show ?thesis by (simp add: parse_tokens_append)
  qed
  finally have whole: "parse_descriptors fl lower glean_norm_values doc statistics
           = Option.bind (parse_tokens fl lower glean_norm_values doc [0..<i] statistics)
               (\<lambda>s. parse_tokens fl lower glean_norm_values doc [Suc i..<length doc]
                      (s\<lparr>descr := (descr s)\<lparr>num_neg := num_neg (descr s) + 1\<rparr>\<rparr>))" .
  have count: "num_neg (descr statistics')
              = num_neg (descr statistics)
                + int (length (filter (is_negation doc) [0..<length doc]))"
    if "parse_descriptors fl lower glean_norm_values doc statistics = Some statistics'"
    using that unfolding parse_descriptors_def by (rule parse_tokens_num_neg)
  from token [of statistics] whole count show ?thesis by blast
qed

lemma negation_sentence_eval:
  "map_option (\<lambda>s. (num_neg (descr s), female_descriptors (descr s) ''ruhen'',
                    female_descriptors (descr s) ''nicht''))
     (parse_descriptors exact_arith ascii_lower glean_example negation_sentence
        (initial_statistics exact_arith []))
   = Some (1, Some 1, None)"
  by code_simp

theorem negation_only_counts_witness:
  "(3::nat) < length negation_sentence \<and> is_negation negation_sentence 3
   \<and> filter (is_negation negation_sentence) [0..<length negation_sentence] = [3]
   \<and> parse_token exact_arith ascii_lower glean_example negation_sentence (initial_statistics exact_arith []) 3
       = Some ((initial_statistics exact_arith [])
                 \<lparr>descr := (descr (initial_statistics exact_arith []))\<lparr>num_neg := 1\<rparr>\<rparr>)
   \<and> (\<exists>statistics'.
         parse_descriptors exact_arith ascii_lower glean_example negation_sentence
           (initial_statistics exact_arith []) = Some statistics'
       \<and> num_neg (descr statistics') = 1
       \<and> female_descriptors (descr statistics') ''nicht'' = None)"
proof -
  let ?init = "initial_statistics exact_arith [] :: real Statistics"
  have l: "(3::nat) < length negation_sentence" by code_simp
  have n: "is_negation negation_sentence 3" by code_simp
  have k: "filter (is_negation negation_sentence) [0..<length negation_sentence] = [3]" by code_simp
  have z: "num_neg (descr ?init) = 0"
    by (simp add: initial_statistics_def new_Statistics_def new_DESCR_def)
  from negation_sentence_eval obtain s' where
    r: "parse_descriptors exact_arith ascii_lower glean_example negation_sentence ?init = Some s'"
    and w: "female_descriptors (descr s') ''nicht'' = None"
    by auto
  note inst = negation_only_counts [OF l n, of exact_arith ascii_lower glean_example ?init s']
  from inst z have t: "parse_token exact_arith ascii_lower glean_example negation_sentence ?init 3
       = Some (?init\<lparr>descr := (descr ?init)\<lparr>num_neg := 1\<rparr>\<rparr>)" by simp
  from inst r k z have c: "num_neg (descr s') = 1" by simp
  from l n k t r c w show ?thesis by blast
qed

text \<open>
  Claim C5.  Let the token match one of the three descriptor patterns (and not the negation
  pattern), and let \<open>t\<close> be the target the pattern passes to
  \<^verbatim>\<open>obtain_gender_occurrences\<close>.  If the vector returned for \<open>t\<close> is all-zero, the
  loop body returns the statistics unchanged: no primary or nested descriptor is recorded,
  and the result is a normal one.
\<close>

theorem zero_vector_records_nothing:
  assumes "\<not> is_negation doc i"
    and "is_adjective doc i \<and> t = Some (tok_head (doc ! i))
         \<or> \<not> is_adjective doc i \<and> is_predicative doc i \<and> t = predicative_subject doc i
         \<or> \<not> is_adjective doc i \<and> \<not> is_predicative doc i \<and> is_verb_subject doc i \<and> t = Some i"
    and "obtain_gender_occurrences doc t
           = Some \<lparr>female_occurrences = 0, male_occurrences = 0, undetermined = 0\<rparr>"
  shows "parse_token fl lower glean_norm_values doc statistics i = Some statistics"
  using assms
  by (auto simp: parse_token_def record_descriptor_def Let_def split: prod.splits)

theorem zero_vector_records_nothing_witness:
  "\<not> is_negation house_phrase 1 \<and> is_adjective house_phrase 1
   \<and> obtain_gender_occurrences house_phrase (Some (tok_head (house_phrase ! 1)))
       = Some \<lparr>female_occurrences = 0, male_occurrences = 0, undetermined = 0\<rparr>
   \<and> parse_token exact_arith ascii_lower glean_example house_phrase (initial_statistics exact_arith []) 1
       = Some (initial_statistics exact_arith [])"
proof -
  have n: "\<not> is_negation house_phrase 1" by code_simp
  have a: "is_adjective house_phrase 1" by code_simp
  have z: "obtain_gender_occurrences house_phrase (Some (tok_head (house_phrase ! 1)))
       = Some \<lparr>female_occurrences = 0, male_occurrences = 0, undetermined = 0\<rparr>" by code_simp
  from zero_vector_records_nothing
         [of house_phrase 1 "Some (tok_head (house_phrase ! 1))" exact_arith ascii_lower glean_example
             "initial_statistics exact_arith []"] n a z
  show ?thesis by simp
qed

lemma children_head: "c \<in> set (children doc h) \<Longrightarrow> tok_head (doc ! c) = h"
  by (simp add: children_def)

lemma scan_verb_fold:
  assumes "\<forall>c \<in> set cs. tok_head (doc ! c) = h"
  shows "fst (fold (\<lambda>c (svp, adv).
            if tok_dep (doc ! c) = ''svp'' \<and> tok_head (doc ! c) = h
              then (lower (tok_lemma (doc ! c)) @ SVP_DELIMITER, adv)
            else if \<not> token_truthy doc adv \<and> tok_dep (doc ! c) \<in> {''mo'', ''oc''}
                    \<and> tok_pos (doc ! c) \<in> {''ADV'', ''AUX''}
              then (svp, Some c)
            else (svp, adv)) cs (svp0, adv0))
       = (if filter (\<lambda>c. tok_dep (doc ! c) = ''svp'') cs = [] then svp0
          else lower (tok_lemma (doc ! last (filter (\<lambda>c. tok_dep (doc ! c) = ''svp'') cs))))"
  using assms
proof (induction cs arbitrary: svp0 adv0)
  case Nil
  then show ?case by simp
next
  case (Cons c cs)
  then show ?case by (simp add: SVP_DELIMITER_def)
qed

lemma scan_verb_children_svp:
  "fst (scan_verb_children lower doc h adv0)
     = (if filter (\<lambda>c. tok_dep (doc ! c) = ''svp'') (children doc h) = [] then []
        else lower (tok_lemma (doc ! last (filter (\<lambda>c. tok_dep (doc ! c) = ''svp'') (children doc h)))))"
  unfolding scan_verb_children_def
  by (rule scan_verb_fold) (simp add: children_head)

lemma add_descriptor_dom:
  "dom (female_descriptors (descr (add_descriptor fl g d f s))) = insert d (dom (female_descriptors (descr s)))"
  "dom (male_descriptors (descr (add_descriptor fl g d f s))) = insert d (dom (male_descriptors (descr s)))"
  "dom (ud_descriptors (descr (add_descriptor fl g d f s))) = insert d (dom (ud_descriptors (descr s)))"
  by (simp_all add: add_descriptor_def Let_def)

lemma fold_add_descriptor_dom:
  "dom (female_descriptors (descr (fold (\<lambda>d s. add_descriptor fl g d f s) ds s)))
     = set ds \<union> dom (female_descriptors (descr s))"
  "dom (male_descriptors (descr (fold (\<lambda>d s. add_descriptor fl g d f s) ds s)))
     = set ds \<union> dom (male_descriptors (descr s))"
  "dom (ud_descriptors (descr (fold (\<lambda>d s. add_descriptor fl g d f s) ds s)))
     = set ds \<union> dom (ud_descriptors (descr s))"
  by (induction ds arbitrary: s) (simp_all add: add_descriptor_dom)

text \<open>
  Claim C7.  In the pattern of a nominative NOUN/PROPN subject \<open>i\<close> of a verb \<open>h\<close>,
  with a non-zero vector, a verb that has children in relation \<open>svp\<close> is recorded under
  the lower-cased lemma of the particle (the last such child) followed directly by the
  lower-cased lemma of the verb; the nested descriptors are recorded after it.  The witness
  is ``Die Lehrerin steht auf'', recorded as \<open>aufstehen\<close> and under no other key.
\<close>

theorem particle_prefix:
  assumes "\<not> is_negation doc i" and "\<not> is_adjective doc i" and "\<not> is_predicative doc i"
    and "is_verb_subject doc i"
    and "h = tok_head (doc ! i)"
    and "filter (\<lambda>c. tok_dep (doc ! c) = ''svp'') (children doc h) = ps" and "ps \<noteq> []"
    and "obtain_gender_occurrences doc (Some i) = Some factors"
    and "\<not> (female_occurrences factors = 0 \<and> male_occurrences factors = 0 \<and> undetermined factors = 0)"
  shows "parse_token fl lower glean_norm_values doc statistics i
           = map_option
               (\<lambda>nested_descr.
                  fold (\<lambda>descr s. add_descriptor fl glean_norm_values descr factors s) nested_descr
                    (add_descriptor fl glean_norm_values
                       (lower (tok_lemma (doc ! last ps)) @ lower (tok_lemma (doc ! h)))
                       factors statistics))
               (nested_descriptors lower doc h (snd (scan_verb_children lower doc h (verb_adverb doc h))))
       \<and> (parse_token fl lower glean_norm_values doc statistics i = Some statistics' \<longrightarrow>
            lower (tok_lemma (doc ! last ps)) @ lower (tok_lemma (doc ! h))
              \<in> dom (female_descriptors (descr statistics'))
                \<inter> dom (male_descriptors (descr statistics'))
                \<inter> dom (ud_descriptors (descr statistics')))"
proof -
  let ?key = "lower (tok_lemma (doc ! last ps)) @ lower (tok_lemma (doc ! h))"
  let ?scan = "scan_verb_children lower doc h (verb_adverb doc h)"
  have svp: "fst ?scan = lower (tok_lemma (doc ! last ps))"
    using assms(6,7) by (simp add: scan_verb_children_svp)
  have eq: "parse_token fl lower glean_norm_values doc statistics i
           = map_option
               (\<lambda>nested_descr.
                  fold (\<lambda>descr s. add_descriptor fl glean_norm_values descr factors s) nested_descr
                    (add_descriptor fl glean_norm_values ?key factors statistics))
               (nested_descriptors lower doc h (snd ?scan))"
  proof (cases ?scan)
    case (Pair s a)
    with svp have s: "s = lower (tok_lemma (doc ! last ps))" by simp
    from assms(1-5,8,9) Pair s show ?thesis
      by (cases "nested_descriptors lower doc h a")
         (auto simp add: parse_token_def record_descriptor_def Let_def)
  qed
  have "?key \<in> dom (female_descriptors (descr statistics'))
                \<inter> dom (male_descriptors (descr statistics'))
                \<inter> dom (ud_descriptors (descr statistics'))"
    if "parse_token fl lower glean_norm_values doc statistics i = Some statistics'"
  proof -
    from that eq obtain nested where
      "statistics' = fold (\<lambda>descr s. add_descriptor fl glean_norm_values descr factors s) nested
                    (add_descriptor fl glean_norm_values ?key factors statistics)"
      by auto
    then show ?thesis by (simp add: fold_add_descriptor_dom add_descriptor_dom)
  qed
  with eq show ?thesis by blast
qed

lemma particle_sentence_eval:
  "map_option (\<lambda>s. (female_descriptors (descr s) ''aufstehen'',
                    female_descriptors (descr s) ''stehen'',
                    female_descriptors (descr s) ''auf''))
     (parse_descriptors exact_arith ascii_lower glean_example particle_sentence (initial_statistics exact_arith []))
   = Some (Some 1, None, None)"
  by code_simp

theorem particle_prefix_witness:
  "\<not> is_negation particle_sentence 1 \<and> \<not> is_adjective particle_sentence 1
   \<and> \<not> is_predicative particle_sentence 1 \<and> is_verb_subject particle_sentence 1
   \<and> tok_head (particle_sentence ! 1) = 2
   \<and> filter (\<lambda>c. tok_dep (particle_sentence ! c) = ''svp'') (children particle_sentence 2) = [3]
   \<and> obtain_gender_occurrences particle_sentence (Some 1)
       = Some \<lparr>female_occurrences = 1, male_occurrences = 0, undetermined = 0\<rparr>
   \<and> nested_descriptors ascii_lower particle_sentence 2
        (snd (scan_verb_children ascii_lower particle_sentence 2 (verb_adverb particle_sentence 2)))
       = Some []
   \<and> parse_token exact_arith ascii_lower glean_example particle_sentence (initial_statistics exact_arith []) 1
       = Some (add_descriptor exact_arith glean_example ''aufstehen''
                \<lparr>female_occurrences = 1, male_occurrences = 0, undetermined = 0\<rparr> (initial_statistics exact_arith []))
   \<and> map_option (\<lambda>s. (female_descriptors (descr s) ''aufstehen'',
                    female_descriptors (descr s) ''stehen'',
                    female_descriptors (descr s) ''auf''))
        (parse_descriptors exact_arith ascii_lower glean_example particle_sentence (initial_statistics exact_arith []))
       = Some (Some 1, None, None)"
proof -
  have a: "\<not> is_negation particle_sentence 1" "\<not> is_adjective particle_sentence 1"
    "\<not> is_predicative particle_sentence 1" "is_verb_subject particle_sentence 1"
    by code_simp+
  have h: "2 = tok_head (particle_sentence ! 1)" by code_simp
  have p: "filter (\<lambda>c. tok_dep (particle_sentence ! c) = ''svp'') (children particle_sentence 2) = [3]"
    by code_simp
  have ne: "[3::nat] \<noteq> []" by simp
  have v: "obtain_gender_occurrences particle_sentence (Some 1)
       = Some \<lparr>female_occurrences = 1, male_occurrences = 0, undetermined = 0\<rparr>" by code_simp
  have nz: "\<not> (female_occurrences \<lparr>female_occurrences = 1, male_occurrences = 0, undetermined = 0\<rparr> = 0
     \<and> male_occurrences \<lparr>female_occurrences = 1, male_occurrences = 0, undetermined = 0\<rparr> = 0
     \<and> undetermined \<lparr>female_occurrences = 1, male_occurrences = 0, undetermined = 0\<rparr> = 0)" by simp
  have n: "nested_descriptors ascii_lower particle_sentence 2
        (snd (scan_verb_children ascii_lower particle_sentence 2 (verb_adverb particle_sentence 2)))
       = Some []" by code_simp
  have l: "ascii_lower (tok_lemma (particle_sentence ! last [3])) @ ascii_lower (tok_lemma (particle_sentence ! 2))
       = ''aufstehen''" by code_simp
  from particle_prefix [OF a h p ne v nz, of exact_arith ascii_lower glean_example "initial_statistics exact_arith []"]
  have "parse_token exact_arith ascii_lower glean_example particle_sentence (initial_statistics exact_arith []) 1
       = Some (add_descriptor exact_arith glean_example ''aufstehen''
                \<lparr>female_occurrences = 1, male_occurrences = 0, undetermined = 0\<rparr> (initial_statistics exact_arith []))"
    unfolding n l by simp
  with a h p v n particle_sentence_eval show ?thesis by simp
qed


section \<open>Properties of the gender tag resolver\<close>

text \<open>
  Claim C8.  \<^verbatim>\<open>gender_prn\<close> keeps the number and order of the tokens and changes at
  most the gender tag of a token: a NOUN or PROPN whose lemma is in the male list is tagged
  \<^verbatim>\<open>PRN:M\<close> (also when the lemma is in both lists); otherwise a NOUN or PROPN whose
  lemma is in the female list is tagged \<^verbatim>\<open>PRN:F\<close>; every other token, in particular
  every token of another part of speech, is returned as it was.
\<close>

theorem gender_prn_tags:
  "length (gender_prn prn_male prn_female doc) = length doc
   \<and> (\<forall>i < length doc.
        gender_prn prn_male prn_female doc ! i
          = (doc ! i)\<lparr>tok_gender :=
               if tok_pos (doc ! i) \<in> {''NOUN'', ''PROPN''} \<and> tok_lemma (doc ! i) \<in> set prn_male
                 then Some ''PRN:M''
               else if tok_pos (doc ! i) \<in> {''NOUN'', ''PROPN''} \<and> tok_lemma (doc ! i) \<in> set prn_female
                 then Some ''PRN:F''
               else tok_gender (doc ! i)\<rparr>
      \<and> (tok_pos (doc ! i) \<in> {''NOUN'', ''PROPN''} \<and> tok_lemma (doc ! i) \<in> set prn_male
            \<and> tok_lemma (doc ! i) \<in> set prn_female
          \<longrightarrow> tok_gender (gender_prn prn_male prn_female doc ! i) = Some ''PRN:M'')
      \<and> (tok_pos (doc ! i) \<notin> {''NOUN'', ''PROPN''}
          \<longrightarrow> gender_prn prn_male prn_female doc ! i = doc ! i)
      \<and> (tok_lemma (doc ! i) \<notin> set prn_male \<and> tok_lemma (doc ! i) \<notin> set prn_female
          \<longrightarrow> gender_prn prn_male prn_female doc ! i = doc ! i))"
  by (simp add: gender_prn_def tag_token_def)

theorem gender_prn_tags_witness:
  "(4::nat) < length untagged_tokens
   \<and> map tok_gender (gender_prn [''Lehrer'', ''Gast'', ''lehren''] [''Lehrerin'', ''Gast''] untagged_tokens)
       = [Some ''PRN:M'', Some ''PRN:F'', Some ''PRN:M'', None, None]
   \<and> tok_pos (untagged_tokens ! 4) \<notin> {''NOUN'', ''PROPN''}
   \<and> gender_prn [''Lehrer'', ''Gast'', ''lehren''] [''Lehrerin'', ''Gast''] untagged_tokens ! 4
       = untagged_tokens ! 4"
proof -
  have l: "(4::nat) < length untagged_tokens" by code_simp
  have p: "tok_pos (untagged_tokens ! 4) \<notin> {''NOUN'', ''PROPN''}" by code_simp
  have m: "map tok_gender (gender_prn [''Lehrer'', ''Gast'', ''lehren''] [''Lehrerin'', ''Gast''] untagged_tokens)
       = [Some ''PRN:M'', Some ''PRN:F'', Some ''PRN:M'', None, None]" by code_simp
  from gender_prn_tags [of "[''Lehrer'', ''Gast'', ''lehren'']" "[''Lehrerin'', ''Gast'']" untagged_tokens]
  have "\<forall>i < length untagged_tokens.
          (tok_pos (untagged_tokens ! i) \<notin> {''NOUN'', ''PROPN''}
          \<longrightarrow> gender_prn [''Lehrer'', ''Gast'', ''lehren''] [''Lehrerin'', ''Gast''] untagged_tokens ! i
                = untagged_tokens ! i)"
    by blast
  with l p have "gender_prn [''Lehrer'', ''Gast'', ''lehren''] [''Lehrerin'', ''Gast''] untagged_tokens ! 4
       = untagged_tokens ! 4" by blast
  with l p m show ?thesis by blast
qed


section \<open>Properties of the corpus run\<close>





















lemma counters_carry:
  "(carry p s)\<lparr>num_slashes := num_slashes (carry p s) + a\<rparr> = carry p (s\<lparr>num_slashes := num_slashes s + a\<rparr>)"
  "(carry p s)\<lparr>token_num := token_num (carry p s) + b\<rparr> = carry p (s\<lparr>token_num := token_num s + b\<rparr>)"
  by (simp_all add: carry_def)









text \<open>
  The table row cannot be built from a statistics object whose table
  \<^verbatim>\<open>num_matches_per\<close> has the keys that helper.py, line 38, gives it: line 271 of main.py
  reads it at \<^verbatim>\<open>PER:m\xc3\xa4nnlich\<close>.
\<close>

lemma stats_row_raises:
  assumes "map fst (num_matches_per (per statistics))
             = map fst (num_matches_per (new_PER Map.empty Map.empty Map.empty Map.empty Map.empty))"
  shows "stats_row file_name statistics = Inl KeyError"
proof -
  let ?d = "num_matches_per (per statistics)"
  from assms have keys: "map fst ?d
      = [''PER:weiblich'', ''PER:m'' @ [CHR 0xC3, CHR 0x83, CHR 0xC2, CHR 0xA4] @ ''nnlich'',
         ''PER:NA'', ''PER:AMB'']"
    by (simp add: new_PER_def)
  have "PER_maennlich \<notin> set (map fst ?d)"
    unfolding keys by (simp add: PER_maennlich_def)
  then have miss: "map_of ?d PER_maennlich = None"
    by (simp add: map_of_eq_None_iff)
  have "PER_weiblich \<in> set (map fst ?d)"
    unfolding keys by (simp add: PER_weiblich_def)
  then obtain x where hit: "map_of ?d PER_weiblich = Some x"
    by (metis map_of_eq_None_iff not_Some_eq set_map)
  show ?thesis
    by (simp add: stats_row_def hit miss)
qed







end
